theory Spec2Isabelle
  imports
    Complex_Main
    "HOL-Library.Multiset"
    "HOL-Library.Sublist"
    "HOL-Library.Char_ord"
    "HOL-Library.List_Lexorder"
begin

section \<open>Python strings\<close>

text \<open>
  A Python \<open>str\<close> is modelled as a HOL \<open>string\<close>. The case conversions and the
  whitespace test are the ASCII ones: a character outside the ASCII letters is left as
  it is by \<open>lower()\<close> and \<open>upper()\<close>.
\<close>

definition char_lower :: "char \<Rightarrow> char" where
  "char_lower c =
     (let n = (of_char c :: nat) in if 65 \<le> n \<and> n \<le> 90 then char_of (n + 32) else c)"

definition char_upper :: "char \<Rightarrow> char" where
  "char_upper c =
     (let n = (of_char c :: nat) in if 97 \<le> n \<and> n \<le> 122 then char_of (n - 32) else c)"

definition py_lower :: "string \<Rightarrow> string" where
  "py_lower s = map char_lower s"

definition py_upper :: "string \<Rightarrow> string" where
  "py_upper s = map char_upper s"

definition py_isspace :: "char \<Rightarrow> bool" where
  "py_isspace c =
     (let n = (of_char c :: nat) in (9 \<le> n \<and> n \<le> 13) \<or> (28 \<le> n \<and> n \<le> 32))"

definition py_strip :: "string \<Rightarrow> string" where
  "py_strip s = rev (dropWhile py_isspace (rev (dropWhile py_isspace s)))"

text \<open>\<open>needle in haystack\<close> on two strings: the needle occurs as a contiguous run.\<close>

fun str_in :: "string \<Rightarrow> string \<Rightarrow> bool" where
  "str_in needle [] = (needle = [])"
| "str_in needle (c # cs) = (prefix needle (c # cs) \<or> str_in needle cs)"

section \<open>Data model\<close>

subsection \<open>models/user_profile.py\<close>

record LocationData =
  ld_city :: string
  ld_state :: string
  ld_country :: string
  ld_zip_code :: "string option"

record LifestyleData =
  smoking :: bool
  drinking :: string

record UserProfile =
  age :: int
  up_conditions :: "string list"
  medications :: "string list"
  location :: LocationData
  lifestyle :: LifestyleData

text \<open>The dictionary returned by \<open>UserProfile.get_search_params\<close>.\<close>

record SearchLocation =
  sl_city :: string
  sl_state :: string
  sl_country :: string

record SearchParams =
  sp_conditions :: "string list"
  sp_location :: SearchLocation
  sp_age :: int

definition get_search_params :: "UserProfile \<Rightarrow> SearchParams" where
  "get_search_params self =
     \<lparr> sp_conditions = up_conditions self,
       sp_location = \<lparr> sl_city = ld_city (location self),
                       sl_state = ld_state (location self),
                       sl_country = ld_country (location self) \<rparr>,
       sp_age = age self \<rparr>"

subsection \<open>services/clinical_trials_service.py\<close>

record TrialLocation =
  facility :: string
  city :: string
  state :: string
  country :: string
  zip_code :: "string option"
  coordinates :: "(real \<times> real) option"

record ContactInfo =
  name :: "string option"
  phone :: "string option"
  email :: "string option"

record RawTrialData =
  nct_id :: string
  title :: string
  brief_summary :: string
  detailed_description :: string
  eligibility_criteria :: string
  inclusion_criteria :: "string list"
  exclusion_criteria :: "string list"
  locations :: "TrialLocation list"
  contact_info :: ContactInfo
  study_type :: string
  phase :: "string option"
  status :: string
  start_date :: "string option"
  completion_date :: "string option"
  sponsor :: string
  conditions :: "string list"
  interventions :: "string list"

section \<open>Eligibility and relevance filter\<close>

text \<open>
  \<open>TrialMatchingService._filter_trials\<close>. The four lists the loop appends to are
  the fields of \<open>buckets\<close>; \<open>scan_locations\<close> is the inner loop over a trial's
  locations, which stops at the first location in the user's state.
\<close>

record buckets =
  local_trials :: "RawTrialData list"
  nearby_trials :: "RawTrialData list"
  recruiting_trials :: "RawTrialData list"
  active_trials :: "RawTrialData list"

definition finished_statuses :: "string list" where
  "finished_statuses = [''completed'', ''terminated'', ''withdrawn'']"

fun scan_locations :: "string \<Rightarrow> TrialLocation list \<Rightarrow> bool \<Rightarrow> bool \<times> bool" where
  "scan_locations user_state [] has_nearby = (False, has_nearby)"
| "scan_locations user_state (loc # locs) has_nearby =
     (if state loc \<noteq> [] then
        (let st = py_upper (state loc) in
         if st = user_state then (True, has_nearby)
         else if user_state \<in> set [''NY'', ''NJ'', ''CT'']
                 \<and> st \<in> set [''NY'', ''NJ'', ''CT'', ''PA'', ''MA'']
           then scan_locations user_state locs True
         else if user_state \<in> set [''CA'', ''NV'', ''OR'']
                 \<and> st \<in> set [''CA'', ''NV'', ''OR'', ''WA'', ''AZ'']
           then scan_locations user_state locs True
         else if user_state \<in> set [''TX'', ''LA'', ''OK'']
                 \<and> st \<in> set [''TX'', ''LA'', ''OK'', ''AR'', ''NM'']
           then scan_locations user_state locs True
         else if user_state \<in> set [''FL'', ''GA'', ''AL'']
                 \<and> st \<in> set [''FL'', ''GA'', ''AL'', ''SC'', ''NC'']
           then scan_locations user_state locs True
         else scan_locations user_state locs has_nearby)
      else scan_locations user_state locs has_nearby)"

definition categorize :: "string \<Rightarrow> buckets \<Rightarrow> RawTrialData \<Rightarrow> buckets" where
  "categorize user_state b trial =
     (if py_lower (status trial) \<in> set finished_statuses then b
      else
        (case scan_locations user_state (locations trial) False of
           (has_local_location, has_nearby_location) \<Rightarrow>
             if has_local_location
               then b\<lparr>local_trials := local_trials b @ [trial]\<rparr>
             else if has_nearby_location
               then b\<lparr>nearby_trials := nearby_trials b @ [trial]\<rparr>
             else if py_lower (status trial) \<in> set [''recruiting'', ''not yet recruiting'']
               then b\<lparr>recruiting_trials := recruiting_trials b @ [trial]\<rparr>
             else if py_lower (status trial)
                       \<in> set [''active, not recruiting'', ''enrolling by invitation'']
               then b\<lparr>active_trials := active_trials b @ [trial]\<rparr>
             else b))"

definition user_state_of :: "UserProfile \<Rightarrow> string" where
  "user_state_of user_profile =
     (if ld_state (location user_profile) \<noteq> []
      then py_upper (ld_state (location user_profile)) else [])"

definition empty_buckets :: buckets where
  "empty_buckets =
     \<lparr> local_trials = [], nearby_trials = [], recruiting_trials = [], active_trials = [] \<rparr>"

text \<open>The concatenation of the capped buckets, before the backfill step.\<close>

definition bucketed_trials :: "RawTrialData list \<Rightarrow> UserProfile \<Rightarrow> RawTrialData list" where
  "bucketed_trials raw_trials user_profile =
     (let b = foldl (categorize (user_state_of user_profile)) empty_buckets raw_trials
      in local_trials b @ take 20 (nearby_trials b) @ take 30 (recruiting_trials b)
           @ take 15 (active_trials b))"

definition filter_trials :: "RawTrialData list \<Rightarrow> UserProfile \<Rightarrow> RawTrialData list" where
  "filter_trials raw_trials user_profile =
     (let filtered_trials = bucketed_trials raw_trials user_profile
      in if length filtered_trials < 10
         then
           (let remaining_trials =
                  filter (\<lambda>trial. trial \<notin> set filtered_trials
                                   \<and> py_lower (status trial) \<notin> set finished_statuses)
                         raw_trials
            in filtered_trials @ take 15 remaining_trials)
         else filtered_trials)"

text \<open>
  Two notions used to state the filter's properties: a trial is \<open>not_finished\<close> when the
  status test at the head of the loop lets it through, and \<open>bucket_of\<close> numbers the branch
  of the loop body a trial takes (0: skipped, 1: local, 2: nearby, 3: recruiting,
  4: active, 5: none of the four lists).
\<close>

definition not_finished :: "RawTrialData \<Rightarrow> bool" where
  "not_finished t \<longleftrightarrow> py_lower (status t) \<notin> set finished_statuses"

definition bucket_of :: "string \<Rightarrow> RawTrialData \<Rightarrow> nat" where
  "bucket_of us t =
     (if \<not> not_finished t then 0
      else case scan_locations us (locations t) False of
        (l, n) \<Rightarrow>
          if l then 1 else if n then 2
          else if py_lower (status t) \<in> set [''recruiting'', ''not yet recruiting''] then 3
          else if py_lower (status t)
                    \<in> set [''active, not recruiting'', ''enrolling by invitation''] then 4
          else 5)"

section \<open>Cache key generator\<close>

text \<open>
  \<open>TrialMatchingService._get_age_range\<close> and \<open>generate_search_key\<close>. The dictionary
  of normalised parameters is a \<open>json\<close> value; \<open>json_dumps\<close> is
  \<open>json.dumps(_, sort_keys=True)\<close> on such values (ASCII text). \<open>hashlib.md5\<close> is a
  library function and is a parameter of \<open>generate_search_key\<close>: it maps the serialised
  text to the hexadecimal digest.
\<close>

definition get_age_range :: "int \<Rightarrow> string" where
  "get_age_range a =
     (if a < 18 then ''under_18''
      else if a < 30 then ''18_29''
      else if a < 50 then ''30_49''
      else if a < 65 then ''50_64''
      else ''65_plus'')"

datatype json = JString string | JArray "json list" | JObject "(string \<times> json) list"

definition hex_digit :: "nat \<Rightarrow> char" where
  "hex_digit n = (if n < 10 then char_of (48 + n) else char_of (87 + n))"

definition json_escape_char :: "char \<Rightarrow> string" where
  "json_escape_char c =
     (let n = (of_char c :: nat) in
      if n = 34 then [CHR 0x5C, CHR 0x22]
      else if n = 92 then [CHR 0x5C, CHR 0x5C]
      else if n = 10 then [CHR 0x5C, CHR ''n'']
      else if n = 13 then [CHR 0x5C, CHR ''r'']
      else if n = 9 then [CHR 0x5C, CHR ''t'']
      else if n = 8 then [CHR 0x5C, CHR ''b'']
      else if n = 12 then [CHR 0x5C, CHR ''f'']
      else if n < 32 then [CHR 0x5C, CHR ''u'', CHR ''0'', CHR ''0'',
                           hex_digit (n div 16), hex_digit (n mod 16)]
      else [c])"

definition json_quote :: "string \<Rightarrow> string" where
  "json_quote s = [CHR 0x22] @ concat (map json_escape_char s) @ [CHR 0x22]"

fun py_join :: "string \<Rightarrow> string list \<Rightarrow> string" where
  "py_join sep [] = []"
| "py_join sep [x] = x"
| "py_join sep (x # y # ys) = x @ sep @ py_join sep (y # ys)"

fun json_dumps :: "json \<Rightarrow> string" where
  "json_dumps (JString s) = json_quote s"
| "json_dumps (JArray xs) = ''['' @ py_join '', '' (map json_dumps xs) @ '']''"
| "json_dumps (JObject kvs) =
     ''{'' @ py_join '', ''
              (map snd (sort_key fst
                 (map (\<lambda>(k, v). (k, json_quote k @ '': '' @ json_dumps v)) kvs)))
       @ ''}''"

definition normalized_search_params :: "UserProfile \<Rightarrow> json" where
  "normalized_search_params user_profile =
     JObject
       [(''conditions'',
           JArray (map JString
             (sort (map (\<lambda>condition. py_strip (py_lower condition))
                        (up_conditions user_profile))))),
        (''location'',
           JObject
             [(''city'', JString (py_strip (py_lower (ld_city (location user_profile))))),
              (''state'', JString (py_strip (py_lower (ld_state (location user_profile))))),
              (''country'',
                 JString (py_strip (py_lower (ld_country (location user_profile)))))]),
        (''age_range'', JString (get_age_range (age user_profile))),
        (''version'', JString ''1.0'')]"

definition generate_search_key :: "(string \<Rightarrow> string) \<Rightarrow> UserProfile \<Rightarrow> string" where
  "generate_search_key md5_hexdigest user_profile =
     md5_hexdigest (json_dumps (normalized_search_params user_profile))"




section \<open>Translation service (services/gemini_translation_service.py)\<close>

record TrialTranslation =
  simplified_description :: string
  eligibility_simplified :: string
  time_commitment :: string
  key_benefits :: string
  compensation_explanation :: "string option"

text \<open>
  The language model and \<open>json.loads\<close> are libraries. Their joint outcome on one
  request is a \<open>gemini_outcome\<close>: the call raised, the reply had no text, the text was
  not JSON, or it parsed to an object, given as the map from its keys to their text
  values (a \<open>null\<close> or absent \<open>compensationExplanation\<close> is an absent key). A
  \<open>gemini_model\<close> gives the outcome for a title, criteria, description and
  compensation.
\<close>

datatype gemini_outcome =
  GenerationError | EmptyResponse | InvalidJson | JsonObject "string \<rightharpoonup> string"

type_synonym gemini_model = "string \<Rightarrow> string \<Rightarrow> string \<Rightarrow> string option \<Rightarrow> gemini_outcome"

definition translate_trial_info ::
  "gemini_model \<Rightarrow> string \<Rightarrow> string \<Rightarrow> string \<Rightarrow> string option \<Rightarrow> TrialTranslation option" where
  "translate_trial_info model ttl criteria description compensation =
     (case model ttl criteria description compensation of
        GenerationError \<Rightarrow> None
      | EmptyResponse \<Rightarrow> None
      | InvalidJson \<Rightarrow> None
      | JsonObject translation_data \<Rightarrow>
          (case translation_data ''simplifiedDescription'' of
             None \<Rightarrow> None
           | Some sd \<Rightarrow>
          (case translation_data ''eligibilitySimplified'' of
             None \<Rightarrow> None
           | Some es \<Rightarrow>
          (case translation_data ''timeCommitment'' of
             None \<Rightarrow> None
           | Some tc \<Rightarrow>
          (case translation_data ''keyBenefits'' of
             None \<Rightarrow> None
           | Some kb \<Rightarrow>
               Some \<lparr> simplified_description = sd,
                      eligibility_simplified = es,
                      time_commitment = tc,
                      key_benefits = kb,
                      compensation_explanation =
                        translation_data ''compensationExplanation'' \<rparr>)))))"

definition create_fallback_translation ::
  "string \<Rightarrow> string \<Rightarrow> string \<Rightarrow> string option \<Rightarrow> TrialTranslation" where
  "create_fallback_translation ttl criteria description compensation =
     \<lparr> simplified_description =
         (if length description > 200
          then ''This study is titled '' @ [CHR 0x27] @ ttl @ [CHR 0x27] @ ''. ''
                 @ take 200 description @ ''...''
          else description),
       eligibility_simplified =
         (if length criteria > 150
          then ''Please review the detailed eligibility criteria: ''
                 @ take 150 criteria @ ''...''
          else criteria),
       time_commitment =
         ''Time commitment information not available. Please contact the study team for details.'',
       key_benefits =
         ''Benefits information not available. Please contact the study team for details.'',
       compensation_explanation =
         (case compensation of
            Some c \<Rightarrow> if c \<noteq> [] then Some c
                      else Some ''Compensation information not available.''
          | None \<Rightarrow> Some ''Compensation information not available.'') \<rparr>"

definition translate_with_fallback ::
  "gemini_model \<Rightarrow> string \<Rightarrow> string \<Rightarrow> string \<Rightarrow> string option \<Rightarrow> TrialTranslation" where
  "translate_with_fallback model ttl criteria description compensation =
     (case translate_trial_info model ttl criteria description compensation of
        Some translation \<Rightarrow> translation
      | None \<Rightarrow> create_fallback_translation ttl criteria description compensation)"

section \<open>Trial match model (models/trial_match.py)\<close>

text \<open>
  \<open>TrialLocation\<close> and \<open>ContactInfo\<close> of \<open>models/trial_match.py\<close> have the fields
  of their namesakes in \<open>clinical_trials_service.py\<close> and share their records. The
  fields of \<open>TrialMatch\<close> carry the prefix \<open>tm_\<close>. A field whose default is
  \<open>None\<close> is an option. \<open>new_TrialMatch\<close> is the constructor: the generated
  \<open>__init__\<close> stores the fields and calls \<open>__post_init__\<close>.
\<close>

record TrialMatch =
  tm_nct_id :: string
  tm_title :: string
  tm_original_description :: string
  tm_simplified_description :: string
  tm_locations :: "TrialLocation list"
  tm_eligibility_criteria :: string
  tm_eligibility_simplified :: string
  tm_compensation :: "string option"
  tm_compensation_explanation :: "string option"
  tm_time_commitment :: string
  tm_key_benefits :: string
  tm_contact_info :: "ContactInfo option"
  tm_study_type :: string
  tm_phase :: "string option"
  tm_status :: string
  tm_sponsor :: string
  tm_conditions :: "string list option"
  tm_interventions :: "string list option"

definition post_init :: "TrialMatch \<Rightarrow> TrialMatch" where
  "post_init self =
     (let s1 = (if tm_conditions self = None then self\<lparr>tm_conditions := Some []\<rparr> else self);
          s2 = (if tm_interventions s1 = None then s1\<lparr>tm_interventions := Some []\<rparr> else s1)
      in if tm_contact_info s2 = None
         then s2\<lparr>tm_contact_info := Some \<lparr>name = None, phone = None, email = None\<rparr>\<rparr>
         else s2)"

definition new_TrialMatch :: "TrialMatch \<Rightarrow> TrialMatch" where
  "new_TrialMatch init_args = post_init init_args"

record MatchingResult =
  matches :: "TrialMatch list"
  total_found :: int
  processing_time :: real
  search_params :: SearchParams
  cached :: bool
  ai_translation_success_rate :: real

section \<open>Trial matching service (services/trial_matching_service.py)\<close>

text \<open>
  A raised exception is a value: \<open>Exception msg\<close> for any exception other than
  \<open>TrialMatchingError\<close>, with \<open>msg\<close> its \<open>str\<close>, and
  \<open>TrialMatchingError message error_type\<close>. A function that can raise returns a sum with
  the exception on the left.

  The three collaborators handed to \<open>TrialMatchingService.__init__\<close> are fields of the
  service, each given by the one method the matching service calls on it:
  \<open>clinical_trials_service\<close> by \<open>search_trials\<close>, \<open>gemini_service\<close> by
  \<open>translate_with_fallback\<close>, \<open>cache_service\<close> by \<open>get_cached_trials\<close>.
  \<open>GeminiTranslationService model\<close> is the translation service of the source as such a
  collaborator. \<open>create_fallback_translation\<close> is always the function of the source.
\<close>

datatype py_exception = Exception string | TrialMatchingError string string

fun str_of_exception :: "py_exception \<Rightarrow> string" where
  "str_of_exception (Exception msg) = msg"
| "str_of_exception (TrialMatchingError msg ety) = msg"

fun error_type :: "py_exception \<Rightarrow> string option" where
  "error_type (Exception msg) = None"
| "error_type (TrialMatchingError msg ety) = Some ety"

definition default_error_type :: string where
  "default_error_type = ''MATCHING_ERROR''"

record CachedData =
  cd_matches :: "TrialMatch list"
  cd_total_found :: int
  cd_ai_translation_success_rate :: "real option"

record TrialMatchingService =
  clinical_trials_service ::
    "string list \<Rightarrow> SearchLocation \<Rightarrow> int \<Rightarrow> nat \<Rightarrow> py_exception + RawTrialData list"
  gemini_service ::
    "string \<Rightarrow> string \<Rightarrow> string \<Rightarrow> string option \<Rightarrow> py_exception + TrialTranslation"
  cache_service :: "SearchParams \<Rightarrow> py_exception + CachedData option"
  max_results :: nat
  cache_ttl_hours :: nat
  max_translation_workers :: nat

definition GeminiTranslationService ::
  "gemini_model \<Rightarrow> string \<Rightarrow> string \<Rightarrow> string \<Rightarrow> string option \<Rightarrow> py_exception + TrialTranslation"
  where
  "GeminiTranslationService model ttl criteria description compensation =
     Inr (translate_with_fallback model ttl criteria description compensation)"

text \<open>\<open>a or b\<close> on two strings, as in \<open>brief_summary or detailed_description\<close>.\<close>

definition str_or :: "string \<Rightarrow> string \<Rightarrow> string" where
  "str_or a b = (if a \<noteq> [] then a else b)"

definition convert_locations :: "TrialLocation list \<Rightarrow> TrialLocation list" where
  "convert_locations locs =
     map (\<lambda>loc. \<lparr> facility = facility loc, city = city loc, state = state loc,
                  country = country loc, zip_code = zip_code loc,
                  coordinates = coordinates loc \<rparr>) locs"

definition convert_contact_info :: "ContactInfo \<Rightarrow> ContactInfo" where
  "convert_contact_info c = \<lparr> name = name c, phone = phone c, email = email c \<rparr>"

definition merge_trial :: "RawTrialData \<Rightarrow> TrialTranslation \<Rightarrow> TrialMatch" where
  "merge_trial raw_trial translation =
     new_TrialMatch
       \<lparr> tm_nct_id = nct_id raw_trial,
         tm_title = title raw_trial,
         tm_original_description =
           str_or (brief_summary raw_trial) (detailed_description raw_trial),
         tm_simplified_description = simplified_description translation,
         tm_locations = convert_locations (locations raw_trial),
         tm_eligibility_criteria = eligibility_criteria raw_trial,
         tm_eligibility_simplified = eligibility_simplified translation,
         tm_compensation = None,
         tm_compensation_explanation = compensation_explanation translation,
         tm_time_commitment = time_commitment translation,
         tm_key_benefits = key_benefits translation,
         tm_contact_info = Some (convert_contact_info (contact_info raw_trial)),
         tm_study_type = study_type raw_trial,
         tm_phase = phase raw_trial,
         tm_status = status raw_trial,
         tm_sponsor = sponsor raw_trial,
         tm_conditions = Some (conditions raw_trial),
         tm_interventions = Some (interventions raw_trial) \<rparr>"

definition create_fallback_match :: "RawTrialData \<Rightarrow> TrialMatch" where
  "create_fallback_match raw_trial =
     merge_trial raw_trial
       (create_fallback_translation (title raw_trial) (eligibility_criteria raw_trial)
          (str_or (brief_summary raw_trial) (detailed_description raw_trial)) None)"

text \<open>The test of \<open>_process_single_trial\<close> for the fallback's marker texts.\<close>

definition has_fallback_marker :: "TrialTranslation \<Rightarrow> bool" where
  "has_fallback_marker translation \<longleftrightarrow>
     str_in ''Please review the detailed eligibility criteria''
            (eligibility_simplified translation)
     \<or> str_in ''Time commitment information not available'' (time_commitment translation)"

definition process_single_trial ::
  "TrialMatchingService \<Rightarrow> RawTrialData \<Rightarrow> py_exception + (TrialMatch \<times> bool)" where
  "process_single_trial self raw_trial =
     (case gemini_service self (title raw_trial) (eligibility_criteria raw_trial)
             (str_or (brief_summary raw_trial) (detailed_description raw_trial)) None of
        Inr translation \<Rightarrow>
          (let translation_success = (\<not> has_fallback_marker translation)
           in Inr (merge_trial raw_trial translation, translation_success))
      | Inl e \<Rightarrow> Inr (create_fallback_match raw_trial, False))"

text \<open>
  \<open>as_completed\<close> yields every submitted future once, in the order of completion, which
  the pool decides. A schedule fixes that order: each number picks the next future to
  complete among those still pending, and when the schedule is used up the rest complete
  in the order of submission.
\<close>

fun as_completed :: "nat list \<Rightarrow> 'a list \<Rightarrow> 'a list" where
  "as_completed [] pending = pending"
| "as_completed (k # ks) pending =
     (if pending = [] then []
      else (let i = k mod length pending
            in pending ! i # as_completed ks (take i pending @ drop (Suc i) pending)))"

definition collect_result ::
  "TrialMatchingService \<Rightarrow> TrialMatch list \<times> nat \<Rightarrow> RawTrialData \<Rightarrow> TrialMatch list \<times> nat" where
  "collect_result self acc trial =
     (case acc of (processed_matches, successful_translations) \<Rightarrow>
        (case process_single_trial self trial of
           Inr (processed_match, translation_success) \<Rightarrow>
             (processed_matches @ [processed_match],
              if translation_success then successful_translations + 1
              else successful_translations)
         | Inl e \<Rightarrow>
             (processed_matches @ [create_fallback_match trial], successful_translations)))"

definition process_trials_with_ai ::
  "TrialMatchingService \<Rightarrow> nat list \<Rightarrow> RawTrialData list \<Rightarrow> TrialMatch list \<times> real" where
  "process_trials_with_ai self schedule raw_trials =
     (case foldl (collect_result self) ([], 0) (as_completed schedule raw_trials) of
        (processed_matches, successful_translations) \<Rightarrow>
          (processed_matches,
           if raw_trials \<noteq> []
           then real successful_translations / real (length raw_trials) else 0))"

definition get_cached_results :: "TrialMatchingService \<Rightarrow> UserProfile \<Rightarrow> CachedData option" where
  "get_cached_results self user_profile =
     (case cache_service self (get_search_params user_profile) of
        Inr (Some cached_data) \<Rightarrow> Some cached_data
      | Inr None \<Rightarrow> None
      | Inl e \<Rightarrow> None)"

definition matching_search_trials ::
  "TrialMatchingService \<Rightarrow> UserProfile \<Rightarrow> py_exception + RawTrialData list" where
  "matching_search_trials self user_profile =
     (let sp = get_search_params user_profile
      in case clinical_trials_service self (sp_conditions sp) (sp_location sp) (sp_age sp)
                (max_results self) of
           Inr raw_trials \<Rightarrow> Inr raw_trials
         | Inl e \<Rightarrow>
             Inl (TrialMatchingError
                    (''Failed to search clinical trials: '' @ str_of_exception e)
                    ''API_ERROR''))"

text \<open>
  \<open>find_matching_trials\<close> returns, with its result, the calls it made to its
  collaborators, in order. \<open>elapsed\<close> is the clock difference stored as
  \<open>processing_time\<close>; \<open>schedule\<close> is the completion order of the worker pool. The
  cache lookup is commented out in the source, which binds \<open>cached_data\<close> to
  \<open>None\<close>; so is the cache write. The branch for cached data is the one for the
  dictionary that \<open>get_cached_trials\<close> returns, a \<open>CachedData\<close>.
\<close>

datatype collaborator_call =
  CacheLookup SearchParams | SearchTrials SearchParams | Translate string

definition find_matching_trials ::
  "(string \<Rightarrow> string) \<Rightarrow> TrialMatchingService \<Rightarrow> real \<Rightarrow> nat list \<Rightarrow> UserProfile
     \<Rightarrow> collaborator_call list \<times> (py_exception + MatchingResult)" where
  "find_matching_trials md5_hexdigest self elapsed schedule user_profile =
     (let search_key = generate_search_key md5_hexdigest user_profile;
          cached_data = (None :: CachedData option)
      in case cached_data of
           Some cd \<Rightarrow>
             ([],
              Inr \<lparr> matches = map new_TrialMatch (cd_matches cd),
                    total_found = cd_total_found cd,
                    processing_time = elapsed,
                    search_params = get_search_params user_profile,
                    cached = True,
                    ai_translation_success_rate =
                      (case cd_ai_translation_success_rate cd of
                         Some r \<Rightarrow> r | None \<Rightarrow> 0) \<rparr>)
         | None \<Rightarrow>
             (case matching_search_trials self user_profile of
                Inl e \<Rightarrow>
                  ([SearchTrials (get_search_params user_profile)],
                   Inl (TrialMatchingError
                          (''Failed to find matching trials: '' @ str_of_exception e)
                          default_error_type))
              | Inr raw_trials \<Rightarrow>
                  if raw_trials = [] then
                    ([SearchTrials (get_search_params user_profile)],
                     Inr \<lparr> matches = [],
                           total_found = 0,
                           processing_time = elapsed,
                           search_params = get_search_params user_profile,
                           cached = False,
                           ai_translation_success_rate = 0 \<rparr>)
                  else
                    (let filtered_trials = filter_trials raw_trials user_profile
                     in case process_trials_with_ai self schedule filtered_trials of
                          (processed_matches, ai_success_rate) \<Rightarrow>
                            (SearchTrials (get_search_params user_profile)
                               # map (\<lambda>trial. Translate (nct_id trial)) filtered_trials,
                             Inr \<lparr> matches = processed_matches,
                                   total_found = int (length processed_matches),
                                   processing_time = elapsed,
                                   search_params = get_search_params user_profile,
                                   cached = False,
                                   ai_translation_success_rate = ai_success_rate \<rparr>))))"


definition translation_success :: "TrialMatchingService \<Rightarrow> RawTrialData \<Rightarrow> bool" where
  "translation_success self raw_trial =
     (case process_single_trial self raw_trial of
        Inr (processed_match, success) \<Rightarrow> success
      | Inl e \<Rightarrow> False)"


section \<open>Example data\<close>

text \<open>A trial, a profile and a translation, after the fixtures of the test suite.\<close>

definition trial_a :: RawTrialData where
  "trial_a =
     \<lparr> nct_id = ''NCT12345678'',
       title = ''Diabetes Treatment Study'',
       brief_summary = ''A study testing a new diabetes medication'',
       detailed_description = ''Detailed description of the diabetes study'',
       eligibility_criteria = ''Adults 18-65 with Type 2 diabetes'',
       inclusion_criteria = [''Adults 18-65 years'', ''Type 2 diabetes diagnosis''],
       exclusion_criteria = [''Pregnancy'', ''Severe kidney disease''],
       locations =
         [\<lparr> facility = ''City Clinic'', city = ''San Francisco'', state = ''CA'',
             country = ''United States'', zip_code = None, coordinates = None \<rparr>],
       contact_info = \<lparr> name = None, phone = None, email = None \<rparr>,
       study_type = ''Interventional'',
       phase = Some ''Phase 2'',
       status = ''Recruiting'',
       start_date = Some ''2024-01-01'',
       completion_date = Some ''2025-12-31'',
       sponsor = ''Test Sponsor'',
       conditions = [''Diabetes''],
       interventions = [''Test Drug''] \<rparr>"

definition profile_a :: UserProfile where
  "profile_a =
     \<lparr> age = 45,
       up_conditions = [''diabetes'', ''hypertension''],
       medications = [''metformin'', ''lisinopril''],
       location = \<lparr> ld_city = ''San Francisco'', ld_state = ''CA'',
                    ld_country = ''United States'', ld_zip_code = Some ''94102'' \<rparr>,
       lifestyle = \<lparr> smoking = False, drinking = ''occasional'' \<rparr> \<rparr>"

text \<open>
  Ten trials that are suspended and list no location: none of the four lists takes
  them.
\<close>

definition suspended_trials :: "RawTrialData list" where
  "suspended_trials = replicate 10 (trial_a\<lparr>status := ''Suspended'', locations := []\<rparr>)"


text \<open>
  Two language models: one answers every request with the translation of the test
  fixture, the other with a well-formed reply whose time commitment says that the
  information is not available. A service with stub collaborators around a model, a
  service whose cache holds an entry for every search, and one whose trial source fails.
\<close>

definition working_model :: gemini_model where
  "working_model ttl criteria description compensation =
     JsonObject (map_of
       [(''simplifiedDescription'',
           ''This study tests a new diabetes medication to see if it works better than current treatments.''),
        (''eligibilitySimplified'', ''Adults between 18-65 years old with Type 2 diabetes''),
        (''timeCommitment'', ''6 visits over 3 months''),
        (''keyBenefits'', ''Free medication and regular health monitoring''),
        (''compensationExplanation'', ''$100 per visit'')])"

definition sample_translation :: TrialTranslation where
  "sample_translation =
     \<lparr> simplified_description =
         ''This study tests a new diabetes medication to see if it works better than current treatments.'',
       eligibility_simplified = ''Adults between 18-65 years old with Type 2 diabetes'',
       time_commitment = ''6 visits over 3 months'',
       key_benefits = ''Free medication and regular health monitoring'',
       compensation_explanation = Some ''$100 per visit'' \<rparr>"


definition example_service :: "gemini_model \<Rightarrow> TrialMatchingService" where
  "example_service model =
     \<lparr> clinical_trials_service = (\<lambda>conditions location age max_results. Inr [trial_a]),
       gemini_service = GeminiTranslationService model,
       cache_service = (\<lambda>search_params. Inr None),
       max_results = 100,
       cache_ttl_hours = 24,
       max_translation_workers = 5 \<rparr>"

definition cached_a :: CachedData where
  "cached_a =
     \<lparr> cd_matches = [merge_trial trial_a sample_translation],
       cd_total_found = 1,
       cd_ai_translation_success_rate = Some 1 \<rparr>"

definition cache_hit_service :: TrialMatchingService where
  "cache_hit_service =
     (example_service working_model)\<lparr>cache_service := (\<lambda>search_params. Inr (Some cached_a))\<rparr>"

definition source_down_service :: TrialMatchingService where
  "source_down_service =
     (example_service working_model)
       \<lparr>clinical_trials_service :=
          (\<lambda>conditions location age max_results.
             Inl (Exception ''Connection error after multiple attempts''))\<rparr>"

section \<open>Properties of the filter\<close>

lemma bucket_of_le: "bucket_of us t \<le> 5"
  by (simp add: bucket_of_def split: prod.splits)

lemma bucket_of_0: "bucket_of us t = 0 \<longleftrightarrow> \<not> not_finished t"
  by (simp add: bucket_of_def split: prod.splits)

text \<open>The loop body adds the trial to the list its bucket number names.\<close>

lemma categorize_bucket:
  "categorize us b t =
     (if bucket_of us t = 1 then b\<lparr>local_trials := local_trials b @ [t]\<rparr>
      else if bucket_of us t = 2 then b\<lparr>nearby_trials := nearby_trials b @ [t]\<rparr>
      else if bucket_of us t = 3 then b\<lparr>recruiting_trials := recruiting_trials b @ [t]\<rparr>
      else if bucket_of us t = 4 then b\<lparr>active_trials := active_trials b @ [t]\<rparr>
      else b)"
  unfolding categorize_def bucket_of_def not_finished_def
  by (simp split: prod.splits)

lemma foldl_categorize:
  "foldl (categorize us) b ts =
     \<lparr> local_trials = local_trials b @ filter (\<lambda>t. bucket_of us t = 1) ts,
       nearby_trials = nearby_trials b @ filter (\<lambda>t. bucket_of us t = 2) ts,
       recruiting_trials = recruiting_trials b @ filter (\<lambda>t. bucket_of us t = 3) ts,
       active_trials = active_trials b @ filter (\<lambda>t. bucket_of us t = 4) ts \<rparr>"
  (is "foldl _ b ts = ?rhs b ts")
proof (induction ts arbitrary: b)
  case Nil
  show ?case by simp
next
  case (Cons t ts)
  have "foldl (categorize us) b (t # ts) = foldl (categorize us) (categorize us b t) ts"
    by simp
  also have "\<dots> = ?rhs (categorize us b t) ts"
    by (rule Cons.IH)
  also have "\<dots> = ?rhs b (t # ts)"
    by (simp add: categorize_bucket)
  finally show ?case .
qed

lemma bucketed_trials_eq:
  "bucketed_trials ts p =
     filter (\<lambda>t. bucket_of (user_state_of p) t = 1) ts
     @ take 20 (filter (\<lambda>t. bucket_of (user_state_of p) t = 2) ts)
     @ take 30 (filter (\<lambda>t. bucket_of (user_state_of p) t = 3) ts)
     @ take 15 (filter (\<lambda>t. bucket_of (user_state_of p) t = 4) ts)"
  by (simp add: bucketed_trials_def foldl_categorize empty_buckets_def)

lemma bucketed_not_finished:
  assumes "t \<in> set (bucketed_trials ts p)"
  shows "not_finished t"
proof -
  from assms have "bucket_of (user_state_of p) t \<noteq> 0"
    by (auto simp: bucketed_trials_eq dest!: in_set_takeD)
  then show ?thesis by (simp add: bucket_of_0)
qed

lemma filter_trials_not_finished:
  assumes "t \<in> set (filter_trials ts p)"
  shows "not_finished t"
  using assms bucketed_not_finished[of t ts p]
  by (auto simp: filter_trials_def Let_def not_finished_def split: if_splits
           dest!: in_set_takeD)

text \<open>
  Claim C3. For every input list and every profile, no trial in the output of
  \<open>filter_trials\<close> has a status that, lower-cased, is \<open>completed\<close>, \<open>terminated\<close> or
  \<open>withdrawn\<close>; the trials the backfill step adds are part of that output.
\<close>

theorem filter_trials_excludes_finished:
  "\<forall>trial \<in> set (filter_trials raw_trials user_profile).
     py_lower (status trial) \<notin> {''completed'', ''terminated'', ''withdrawn''}"
  using filter_trials_not_finished[of _ raw_trials user_profile]
  by (auto simp: not_finished_def finished_statuses_def)

theorem filter_trials_excludes_finished_witness:
  "set (filter_trials [trial_a\<lparr>status := ''Completed''\<rparr>, trial_a] profile_a) = {trial_a}
   \<and> py_lower (status trial_a) \<notin> {''completed'', ''terminated'', ''withdrawn''}"
proof -
  have h: "filter_trials [trial_a\<lparr>status := ''Completed''\<rparr>, trial_a] profile_a = [trial_a]"
    by code_simp
  from filter_trials_excludes_finished
         [of "[trial_a\<lparr>status := ''Completed''\<rparr>, trial_a]" profile_a] h
  show ?thesis by simp
qed


lemma count_take_le: "count (mset (take n xs)) x \<le> count (mset xs) x"
proof -
  have "mset xs = mset (take n xs) + mset (drop n xs)"
    by (metis append_take_drop_id mset_append)
  then show ?thesis by simp
qed

lemma count_bucketed_le:
  "count (mset (bucketed_trials ts p)) x \<le> count (mset ts) x"
proof -
  let ?b = "bucket_of (user_state_of p)"
  define c where "c = count (mset ts) x"
  define c1 where "c1 = count (mset (filter (\<lambda>t. ?b t = 1) ts)) x"
  define c2 where "c2 = count (mset (take 20 (filter (\<lambda>t. ?b t = 2) ts))) x"
  define c3 where "c3 = count (mset (take 30 (filter (\<lambda>t. ?b t = 3) ts))) x"
  define c4 where "c4 = count (mset (take 15 (filter (\<lambda>t. ?b t = 4) ts))) x"
  have 1: "c1 = (if ?b x = 1 then c else 0)"
    unfolding c1_def c_def by simp
  have 2: "c2 \<le> (if ?b x = 2 then c else 0)"
    unfolding c2_def c_def
    using count_take_le[of 20 "filter (\<lambda>t. ?b t = 2) ts" x] by simp
  have 3: "c3 \<le> (if ?b x = 3 then c else 0)"
    unfolding c3_def c_def
    using count_take_le[of 30 "filter (\<lambda>t. ?b t = 3) ts" x] by simp
  have 4: "c4 \<le> (if ?b x = 4 then c else 0)"
    unfolding c4_def c_def
    using count_take_le[of 15 "filter (\<lambda>t. ?b t = 4) ts" x] by simp
  have "count (mset (bucketed_trials ts p)) x = c1 + c2 + c3 + c4"
    unfolding c1_def c2_def c3_def c4_def by (simp add: bucketed_trials_eq)
  moreover have "c1 + c2 + c3 + c4 \<le> c"
    using 1 2 3 4 by (simp split: if_splits)
  ultimately show ?thesis unfolding c_def by simp
qed

lemma count_backfill_le:
  assumes F: "\<And>x. count (mset F) x \<le> count (mset ts) x"
  shows "count (mset (F @ take n (filter (\<lambda>t. t \<notin> set F \<and> Q t) ts))) x \<le> count (mset ts) x"
proof -
  define r where "r = count (mset (take n (filter (\<lambda>t. t \<notin> set F \<and> Q t) ts))) x"
  define f where "f = count (mset F) x"
  have r_le: "r \<le> count (mset (filter (\<lambda>t. t \<notin> set F \<and> Q t) ts)) x"
    unfolding r_def by (rule count_take_le)
  have total: "count (mset (F @ take n (filter (\<lambda>t. t \<notin> set F \<and> Q t) ts))) x = f + r"
    unfolding r_def f_def by simp
  have "f + r \<le> count (mset ts) x"
  proof (cases "x \<in> set F")
    case True
    then have "r = 0" using r_le by simp
    then show ?thesis using F[of x] unfolding f_def by simp
  next
    case False
    then have "f = 0"
      unfolding f_def by (simp add: count_eq_zero_iff)
    moreover have "count (mset (filter (\<lambda>t. t \<notin> set F \<and> Q t) ts)) x \<le> count (mset ts) x"
      by simp
    ultimately show ?thesis using r_le by simp
  qed
  then show ?thesis using total by simp
qed

text \<open>
  Claim C9. The output of \<open>filter_trials\<close> is a sub-multiset of its input: every trial
  in the output occurs in the input, and a trial occurs in the output at most as often
  as it occurs in the input. The backfill step is included.
\<close>

theorem filter_trials_sub_multiset: "mset (filter_trials raw_trials user_profile) \<subseteq># mset raw_trials"
proof (rule mset_subset_eqI)
  fix x
  show "count (mset (filter_trials raw_trials user_profile)) x \<le> count (mset raw_trials) x"
  proof (cases "length (bucketed_trials raw_trials user_profile) < 10")
    case True
    then have "filter_trials raw_trials user_profile =
        bucketed_trials raw_trials user_profile
        @ take 15 (filter (\<lambda>t. t \<notin> set (bucketed_trials raw_trials user_profile)
                              \<and> py_lower (status t) \<notin> set finished_statuses) raw_trials)"
      by (simp add: filter_trials_def Let_def)
    then show ?thesis
      using count_backfill_le[of "bucketed_trials raw_trials user_profile" raw_trials 15
               "\<lambda>t. py_lower (status t) \<notin> set finished_statuses" x]
            count_bucketed_le[of raw_trials user_profile]
      by simp
  next
    case False
    then have "filter_trials raw_trials user_profile = bucketed_trials raw_trials user_profile"
      by (simp add: filter_trials_def Let_def)
    then show ?thesis using count_bucketed_le[of raw_trials user_profile x] by simp
  qed
qed

lemma length_not_finished_split:
  "length (filter not_finished ts) =
     length (filter (\<lambda>t. bucket_of us t = 1) ts) + length (filter (\<lambda>t. bucket_of us t = 2) ts)
   + length (filter (\<lambda>t. bucket_of us t = 3) ts) + length (filter (\<lambda>t. bucket_of us t = 4) ts)
   + length (filter (\<lambda>t. bucket_of us t = 5) ts)"
proof (induction ts)
  case Nil
  show ?case by simp
next
  case (Cons t ts)
  have "bucket_of us t \<le> 5" by (rule bucket_of_le)
  then consider "bucket_of us t = 0" | "bucket_of us t = 1" | "bucket_of us t = 2"
    | "bucket_of us t = 3" | "bucket_of us t = 4" | "bucket_of us t = 5"
    by linarith
  then show ?case
  proof cases
    case 1
    then have "\<not> not_finished t" by (simp add: bucket_of_0)
    with 1 Cons.IH show ?thesis by simp
  next
    case 2
    then have "not_finished t" using bucket_of_0[of us t] by simp
    with 2 Cons.IH show ?thesis by simp
  next
    case 3
    then have "not_finished t" using bucket_of_0[of us t] by simp
    with 3 Cons.IH show ?thesis by simp
  next
    case 4
    then have "not_finished t" using bucket_of_0[of us t] by simp
    with 4 Cons.IH show ?thesis by simp
  next
    case 5
    then have "not_finished t" using bucket_of_0[of us t] by simp
    with 5 Cons.IH show ?thesis by simp
  next
    case 6
    then have "not_finished t" using bucket_of_0[of us t] by simp
    with 6 Cons.IH show ?thesis by simp
  qed
qed

lemma mset_not_finished_split:
  "mset (filter not_finished ts) =
     mset (filter (\<lambda>t. bucket_of us t = 1) ts) + mset (filter (\<lambda>t. bucket_of us t = 2) ts)
   + mset (filter (\<lambda>t. bucket_of us t = 3) ts) + mset (filter (\<lambda>t. bucket_of us t = 4) ts)
   + mset (filter (\<lambda>t. bucket_of us t = 5) ts)"
proof (rule multiset_eqI)
  fix x
  have "bucket_of us x \<le> 5" by (rule bucket_of_le)
  then consider "bucket_of us x = 0" | "bucket_of us x = 1" | "bucket_of us x = 2"
    | "bucket_of us x = 3" | "bucket_of us x = 4" | "bucket_of us x = 5"
    by linarith
  then show "count (mset (filter not_finished ts)) x =
     count (mset (filter (\<lambda>t. bucket_of us t = 1) ts) + mset (filter (\<lambda>t. bucket_of us t = 2) ts)
   + mset (filter (\<lambda>t. bucket_of us t = 3) ts) + mset (filter (\<lambda>t. bucket_of us t = 4) ts)
   + mset (filter (\<lambda>t. bucket_of us t = 5) ts)) x"
    using bucket_of_0[of us x] by cases simp_all
qed

text \<open>When the capped buckets hold fewer than 10 trials, no cap has cut anything.\<close>

lemma bucketed_small:
  assumes "length (bucketed_trials ts p) < 10"
  shows "bucketed_trials ts p =
     filter (\<lambda>t. bucket_of (user_state_of p) t = 1) ts
     @ filter (\<lambda>t. bucket_of (user_state_of p) t = 2) ts
     @ filter (\<lambda>t. bucket_of (user_state_of p) t = 3) ts
     @ filter (\<lambda>t. bucket_of (user_state_of p) t = 4) ts"
proof -
  let ?f = "\<lambda>k. filter (\<lambda>t. bucket_of (user_state_of p) t = k) ts"
  from assms have "length (?f 1) + min (length (?f 2)) 20 + min (length (?f 3)) 30
                     + min (length (?f 4)) 15 < 10"
    by (simp add: bucketed_trials_eq)
  then have "length (?f 2) \<le> 20" "length (?f 3) \<le> 30" "length (?f 4) \<le> 15"
    by linarith+
  then show ?thesis by (simp add: bucketed_trials_eq)
qed

lemma remaining_small:
  assumes "length (bucketed_trials ts p) < 10"
  shows "filter (\<lambda>trial. trial \<notin> set (bucketed_trials ts p)
                          \<and> py_lower (status trial) \<notin> set finished_statuses) ts
         = filter (\<lambda>t. bucket_of (user_state_of p) t = 5) ts"
proof (rule filter_cong[OF refl])
  fix t assume "t \<in> set ts"
  have le: "bucket_of (user_state_of p) t \<le> 5" by (rule bucket_of_le)
  have "t \<in> set (bucketed_trials ts p) \<longleftrightarrow> bucket_of (user_state_of p) t \<in> {1, 2, 3, 4}"
    using \<open>t \<in> set ts\<close> by (auto simp: bucketed_small[OF assms])
  moreover have "py_lower (status t) \<notin> set finished_statuses \<longleftrightarrow> bucket_of (user_state_of p) t \<noteq> 0"
    using bucket_of_0[of "user_state_of p" t] by (simp add: not_finished_def)
  ultimately show "(t \<notin> set (bucketed_trials ts p) \<and> py_lower (status t) \<notin> set finished_statuses)
     = (bucket_of (user_state_of p) t = 5)"
    using le by auto
qed

lemma filter_trials_small:
  assumes "length (bucketed_trials ts p) < 10"
  shows "filter_trials ts p =
     bucketed_trials ts p @ take 15 (filter (\<lambda>t. bucket_of (user_state_of p) t = 5) ts)"
  using assms remaining_small[OF assms] by (simp add: filter_trials_def Let_def)

lemma length_bucketed_plus_rest:
  assumes "length (bucketed_trials ts p) < 10"
  shows "length (bucketed_trials ts p) + length (filter (\<lambda>t. bucket_of (user_state_of p) t = 5) ts)
         = length (filter not_finished ts)"
  by (simp add: bucketed_small[OF assms] length_not_finished_split[of ts "user_state_of p"])

lemma length_bucketed_le: "length (bucketed_trials ts p) \<le> length (filter not_finished ts)"
  by (simp add: bucketed_trials_eq length_not_finished_split[of ts "user_state_of p"])

text \<open>
  Claim C4. If the concatenation of the capped buckets has fewer than 10 trials and the
  input has at least 10 trials whose status is not completed, terminated or withdrawn,
  the output of \<open>filter_trials\<close> has at least 10 trials. If the input has fewer than 10
  such trials, the output consists of all of them.
\<close>

theorem filter_trials_backfill_minimum:
  "(length (bucketed_trials raw_trials user_profile) < 10
      \<and> 10 \<le> length (filter (\<lambda>t. py_lower (status t) \<notin> {''completed'', ''terminated'', ''withdrawn''}) raw_trials)
     \<longrightarrow> 10 \<le> length (filter_trials raw_trials user_profile))
   \<and> (length (filter (\<lambda>t. py_lower (status t) \<notin> {''completed'', ''terminated'', ''withdrawn''}) raw_trials) < 10
     \<longrightarrow> mset (filter_trials raw_trials user_profile)
          = mset (filter (\<lambda>t. py_lower (status t) \<notin> {''completed'', ''terminated'', ''withdrawn''}) raw_trials))"
proof -
  let ?us = "user_state_of user_profile"
  let ?B = "bucketed_trials raw_trials user_profile"
  let ?R = "filter (\<lambda>t. bucket_of ?us t = 5) raw_trials"
  have nf: "(\<lambda>t. py_lower (status t) \<notin> {''completed'', ''terminated'', ''withdrawn''}) = not_finished"
    by (rule ext) (simp add: not_finished_def finished_statuses_def)
  have a: "10 \<le> length (filter_trials raw_trials user_profile)"
    if small: "length ?B < 10" and enough: "10 \<le> length (filter not_finished raw_trials)"
  proof -
    have "length (filter_trials raw_trials user_profile) = length ?B + min (length ?R) 15"
      by (simp add: filter_trials_small[OF small])
    moreover have "length ?B + length ?R = length (filter not_finished raw_trials)"
      by (rule length_bucketed_plus_rest[OF small])
    ultimately show ?thesis using enough by linarith
  qed
  have b: "mset (filter_trials raw_trials user_profile) = mset (filter not_finished raw_trials)"
    if few: "length (filter not_finished raw_trials) < 10"
  proof -
    have small: "length ?B < 10"
      using length_bucketed_le[of raw_trials user_profile] few by linarith
    have "length ?B + length ?R = length (filter not_finished raw_trials)"
      by (rule length_bucketed_plus_rest[OF small])
    then have "length ?R \<le> 15" using few by linarith
    then have eq: "filter_trials raw_trials user_profile = ?B @ ?R"
      by (simp add: filter_trials_small[OF small])
    have "mset (filter_trials raw_trials user_profile) =
            mset (filter (\<lambda>t. bucket_of ?us t = 1) raw_trials)
          + mset (filter (\<lambda>t. bucket_of ?us t = 2) raw_trials)
          + mset (filter (\<lambda>t. bucket_of ?us t = 3) raw_trials)
          + mset (filter (\<lambda>t. bucket_of ?us t = 4) raw_trials)
          + mset ?R"
      unfolding eq bucketed_small[OF small] by (simp only: mset_append add.assoc)
    also have "\<dots> = mset (filter not_finished raw_trials)"
      by (rule mset_not_finished_split[symmetric])
    finally show ?thesis .
  qed
  show ?thesis unfolding nf using a b by blast
qed

theorem filter_trials_backfill_minimum_witness:
  "length (bucketed_trials suspended_trials profile_a) < 10
   \<and> 10 \<le> length (filter (\<lambda>t. py_lower (status t)
                                  \<notin> {''completed'', ''terminated'', ''withdrawn''})
                       suspended_trials)
   \<and> 10 \<le> length (filter_trials suspended_trials profile_a)
   \<and> length (filter (\<lambda>t. py_lower (status t)
                             \<notin> {''completed'', ''terminated'', ''withdrawn''})
                  [trial_a\<lparr>status := ''Completed''\<rparr>, trial_a]) < 10
   \<and> mset (filter_trials [trial_a\<lparr>status := ''Completed''\<rparr>, trial_a] profile_a)
       = mset (filter (\<lambda>t. py_lower (status t)
                               \<notin> {''completed'', ''terminated'', ''withdrawn''})
                      [trial_a\<lparr>status := ''Completed''\<rparr>, trial_a])"
proof -
  have h1: "length (bucketed_trials suspended_trials profile_a) < 10"
    by code_simp
  have h2: "10 \<le> length (filter (\<lambda>t. py_lower (status t)
                                  \<notin> {''completed'', ''terminated'', ''withdrawn''})
                       suspended_trials)"
    by code_simp
  have h3: "length (filter (\<lambda>t. py_lower (status t)
                             \<notin> {''completed'', ''terminated'', ''withdrawn''})
                  [trial_a\<lparr>status := ''Completed''\<rparr>, trial_a]) < 10"
    by code_simp
  from filter_trials_backfill_minimum [of suspended_trials profile_a]
       filter_trials_backfill_minimum [of "[trial_a\<lparr>status := ''Completed''\<rparr>, trial_a]" profile_a]
       h1 h2 h3
  show ?thesis by blast
qed

section \<open>Properties of the trial match constructor\<close>

text \<open>
  Claim C10. A \<open>TrialMatch\<close> made by the constructor has a conditions list, an
  interventions list and a contact info that are not \<open>None\<close>, whatever the
  arguments: a \<open>None\<close> conditions or interventions argument becomes the empty list and a
  \<open>None\<close> contact info an empty \<open>ContactInfo\<close>.
\<close>

theorem new_TrialMatch_defaults:
  "tm_conditions (new_TrialMatch init_args) \<noteq> None
   \<and> tm_interventions (new_TrialMatch init_args) \<noteq> None
   \<and> tm_contact_info (new_TrialMatch init_args) \<noteq> None
   \<and> tm_conditions (new_TrialMatch (init_args\<lparr>tm_conditions := None\<rparr>)) = Some []
   \<and> tm_interventions (new_TrialMatch (init_args\<lparr>tm_interventions := None\<rparr>)) = Some []
   \<and> tm_contact_info (new_TrialMatch (init_args\<lparr>tm_contact_info := None\<rparr>))
       = Some \<lparr>name = None, phone = None, email = None\<rparr>"
  by (simp add: new_TrialMatch_def post_init_def Let_def)

section \<open>Properties of the cache key generator\<close>








section \<open>Properties of the translation worker pool\<close>


















section \<open>Properties of the match assembler\<close>

lemma filter_single: "filter_trials [trial_a] profile_a = [trial_a]"
  by code_simp

lemma search_hit: "matching_search_trials cache_hit_service profile_a = Inr [trial_a]"
  by (simp add: matching_search_trials_def cache_hit_service_def example_service_def Let_def)

text \<open>
  Claim C1 at a failing input. The cache holds an entry for the profile, yet
  \<open>find_matching_trials\<close> makes no cache lookup, calls the trial source and the
  translation service, and returns a result that is not marked as cached.
\<close>

theorem find_matching_trials_cache_hit_ignored:
  "get_cached_results cache_hit_service profile_a = Some cached_a
   \<and> fst (find_matching_trials md5_hexdigest cache_hit_service elapsed schedule profile_a)
       = [SearchTrials (get_search_params profile_a), Translate ''NCT12345678'']
   \<and> (case snd (find_matching_trials md5_hexdigest cache_hit_service elapsed schedule profile_a) of
         Inr result \<Rightarrow> cached result = False
       | Inl e \<Rightarrow> False)"
proof -
  have 1: "get_cached_results cache_hit_service profile_a = Some cached_a"
    by (simp add: get_cached_results_def cache_hit_service_def)
  have 2: "nct_id trial_a = ''NCT12345678''" by (simp add: trial_a_def)
  show ?thesis
    using 1 2
    by (simp add: find_matching_trials_def search_hit filter_single Let_def split: prod.splits)
qed

text \<open>For every service and profile the result is never marked as cached.\<close>

lemma find_matching_trials_never_cached:
  "(case snd (find_matching_trials md5_hexdigest self elapsed schedule user_profile) of
      Inr result \<Rightarrow> \<not> cached result
    | Inl e \<Rightarrow> True)
   \<and> (\<forall>sp. CacheLookup sp \<notin> set (fst (find_matching_trials md5_hexdigest self elapsed schedule user_profile)))"
  by (auto simp: find_matching_trials_def Let_def split: sum.splits prod.splits)

text \<open>
  Claim C8 at a failing input. The trial source fails; \<open>matching_search_trials\<close> raises
  an error of type \<open>API_ERROR\<close>, and \<open>find_matching_trials\<close> replaces it by an error of
  the default type \<open>MATCHING_ERROR\<close>.
\<close>

theorem find_matching_trials_source_error_type:
  "matching_search_trials source_down_service profile_a =
     Inl (TrialMatchingError
            ''Failed to search clinical trials: Connection error after multiple attempts''
            ''API_ERROR'')
   \<and> snd (find_matching_trials md5_hexdigest source_down_service elapsed schedule profile_a) =
     Inl (TrialMatchingError
            ''Failed to find matching trials: Failed to search clinical trials: Connection error after multiple attempts''
            ''MATCHING_ERROR'')"
proof -
  have 1: "matching_search_trials source_down_service profile_a =
     Inl (TrialMatchingError
            ''Failed to search clinical trials: Connection error after multiple attempts''
            ''API_ERROR'')"
    by (simp add: matching_search_trials_def source_down_service_def example_service_def Let_def)
  show ?thesis
    by (simp add: find_matching_trials_def 1 Let_def default_error_type_def)
qed

text \<open>
  Every error of \<open>find_matching_trials\<close> has the default type, and a failed translation
  never makes the request fail.
\<close>

lemma find_matching_trials_error_type:
  "(case snd (find_matching_trials md5_hexdigest self elapsed schedule user_profile) of
      Inl e \<Rightarrow> error_type e = Some ''MATCHING_ERROR''
    | Inr result \<Rightarrow> True)"
  by (simp add: find_matching_trials_def Let_def default_error_type_def split: sum.splits prod.splits)

lemma find_matching_trials_absorbs_translation_failures:
  assumes "matching_search_trials self user_profile = Inr raw_trials"
  shows "\<exists>result. snd (find_matching_trials md5_hexdigest self elapsed schedule user_profile) = Inr result"
  using assms by (simp add: find_matching_trials_def Let_def split: prod.splits)

end
